theory Spec2Isabelle
  imports Complex_Main
begin

section \<open>The face detection service of ml-service/main.py\<close>

text \<open>
  The service decodes a base64 image, runs a detection model on it and composes a small
  result. Python integers are \<open>int\<close> or, for sizes and counts that cannot be negative,
  \<open>nat\<close>; a Python float is the real number it denotes. The libraries the service calls
  (base64, PIL, numpy, the detection model) are parameters of the model: each is a function
  that returns a value or raises. In the resize computation, where \<open>int()\<close> makes the
  rounding of double arithmetic visible, the two float operations are parameters as well;
  the comparison in \<open>estimate_looking_away\<close> is taken over the reals.
\<close>

subsection \<open>Exceptions\<close>

text \<open>
  The handler tells \<open>ValueError\<close> (and its subclasses) from every other subclass of
  \<open>Exception\<close>, and reads the message with \<open>str(e)\<close>. \<open>OtherException\<close> stands for
  any subclass of \<open>Exception\<close> that does not derive from \<open>ValueError\<close>, such as
  \<open>OSError\<close> or \<open>RuntimeError\<close>. Exceptions outside \<open>Exception\<close> (\<open>KeyboardInterrupt\<close>,
  \<open>SystemExit\<close>) pass through both \<open>except\<close> clauses and are not part of the model.
\<close>

datatype py_exception =
    ValueError string
  | ZeroDivisionError string
  | IndexError string
  | OtherException string

fun str_exc :: "py_exception \<Rightarrow> string" where
  "str_exc (ValueError m) = m"
| "str_exc (ZeroDivisionError m) = m"
| "str_exc (IndexError m) = m"
| "str_exc (OtherException m) = m"

fun is_ValueError :: "py_exception \<Rightarrow> bool" where
  "is_ValueError (ValueError m) = True"
| "is_ValueError e = False"

datatype http_exception = HTTPException nat string

subsection \<open>Data model\<close>

text \<open>A PIL image: its mode, its size (width, height) and its pixel data.\<close>

record image =
  mode :: string
  width :: nat
  height :: nat
  pixels :: "nat list"

type_synonym bytes = string

text \<open>One row of the model's output: class id, box corners and confidence.\<close>

record yolo_box =
  cls :: real
  xyxy :: "real list"
  conf :: real

record yolo_result =
  boxes :: "yolo_box list option"

text \<open>
  The model handle is called with an image and, optionally, a confidence threshold
  (the warm-up call passes none).
\<close>

type_synonym yolo_handle = "image \<Rightarrow> real option \<Rightarrow> py_exception + yolo_result list"

record AnalyzeRequest =
  image :: string

record AnalyzeResponse =
  success :: bool
  face_count :: int
  confidence :: real
  looking_away :: bool
  processing_time_ms :: real
  bounding_boxes :: "real list list option"
  error :: "string option"

record HealthResponse =
  status :: string
  model_loaded :: bool
  model_path :: string
  model_type :: string
  confidence_threshold :: real

text \<open>The configuration read at start-up and the global model handle.\<close>

record service =
  MODEL_PATH :: string
  CONFIDENCE_THRESHOLD :: real
  MAX_IMAGE_SIZE :: int
  yolo_model :: "yolo_handle option"

text \<open>
  The library and runtime operations the service calls. The first five may raise;
  \<open>np_array\<close> is \<open>np.array(image)\<close>, the step that loads the pixel data of a lazily
  opened file. \<open>true_div a b\<close> is \<open>a / b\<close> on two ints (called with \<open>b \<noteq> 0\<close> only) and
  \<open>float_mul a r\<close> is \<open>a * r\<close> on an int and a float, as double arithmetic computes
  them.
\<close>

record runtime =
  b64decode :: "string \<Rightarrow> py_exception + bytes"
  image_open :: "bytes \<Rightarrow> py_exception + image"
  convert :: "image \<Rightarrow> string \<Rightarrow> py_exception + image"
  resize :: "image \<Rightarrow> int \<times> int \<Rightarrow> py_exception + image"
  np_array :: "image \<Rightarrow> py_exception + image"
  true_div :: "int \<Rightarrow> int \<Rightarrow> real"
  float_mul :: "int \<Rightarrow> real \<Rightarrow> real"

subsection \<open>Python primitives\<close>

text \<open>\<open>int(x)\<close> on a float truncates towards zero.\<close>

definition py_int :: "real \<Rightarrow> int" where
  "py_int x = (if 0 \<le> x then \<lfloor>x\<rfloor> else \<lceil>x\<rceil>)"

text \<open>\<open>s.split(sep)\<close> for a one-character separator: every occurrence splits.\<close>

fun py_split :: "char \<Rightarrow> string \<Rightarrow> string list" where
  "py_split sep [] = [[]]"
| "py_split sep (c # cs) =
     (if c = sep then [] # py_split sep cs
      else (case py_split sep cs of [] \<Rightarrow> [[c]] | p # ps \<Rightarrow> (c # p) # ps))"

text \<open>\<open>max(xs)\<close> on a non-empty list keeps the first largest element.\<close>

fun py_max :: "real list \<Rightarrow> py_exception + real" where
  "py_max [] = Inl (ValueError ''max() iterable argument is empty'')"
| "py_max (x # xs) = Inr (foldl (\<lambda>m y. if m < y then y else m) x xs)"

subsection \<open>decode_base64_image\<close>

text \<open>The data-URL prefix is removed before the \<open>try\<close> block.\<close>

definition strip_data_url :: "string \<Rightarrow> py_exception + string" where
  "strip_data_url base64_string =
     (if CHR '','' \<in> set base64_string
      then (case py_split CHR '','' base64_string of
              _ # part # _ \<Rightarrow> Inr part
            | _ \<Rightarrow> Inl (IndexError ''list index out of range''))
      else Inr base64_string)"

text \<open>The body of the \<open>try\<close> block.\<close>

definition try_decode :: "runtime \<Rightarrow> int \<Rightarrow> string \<Rightarrow> py_exception + image" where
  "try_decode lib max_image_size base64_string =
     (case b64decode lib base64_string of
        Inl e \<Rightarrow> Inl e
      | Inr image_data \<Rightarrow>
     (case image_open lib image_data of
        Inl e \<Rightarrow> Inl e
      | Inr opened \<Rightarrow>
     (case (if mode opened \<noteq> ''RGB'' then convert lib opened ''RGB'' else Inr opened) of
        Inl e \<Rightarrow> Inl e
      | Inr img \<Rightarrow>
          if max_image_size < int (max (width img) (height img)) then
            (if max (width img) (height img) = 0
             then Inl (ZeroDivisionError ''division by zero'')
             else
               let ratio = true_div lib max_image_size (int (max (width img) (height img)));
                   new_size = (py_int (float_mul lib (int (width img)) ratio),
                               py_int (float_mul lib (int (height img)) ratio))
               in resize lib img new_size)
          else Inr img)))"

definition decode_base64_image :: "runtime \<Rightarrow> int \<Rightarrow> string \<Rightarrow> py_exception + image" where
  "decode_base64_image lib max_image_size base64_string =
     (case strip_data_url base64_string of
        Inl e \<Rightarrow> Inl e
      | Inr s \<Rightarrow>
          (case try_decode lib max_image_size s of
             Inl e \<Rightarrow> Inl (ValueError (''Invalid image data: '' @ str_exc e))
           | Inr img \<Rightarrow> Inr img))"

subsection \<open>estimate_looking_away\<close>

definition unpack_msg :: "nat \<Rightarrow> string" where
  "unpack_msg n =
     ''not enough values to unpack (expected 4, got '' @
       (if n = 0 then ''0'' else if n = 1 then ''1'' else if n = 2 then ''2'' else ''3'') @ '')''"

fun estimate_looking_away :: "real list list \<Rightarrow> nat \<Rightarrow> py_exception + bool" where
  "estimate_looking_away [] image_width = Inr False"
| "estimate_looking_away (main_box # _) image_width =
     (case take 4 main_box of
        [x1, y1, x2, y2] \<Rightarrow>
          let face_center_x = (x1 + x2) / 2;
              image_center_x = real image_width / 2
          in if image_center_x = 0
             then Inl (ZeroDivisionError ''float division by zero'')
             else
               let deviation_ratio = \<bar>face_center_x - image_center_x\<bar> / image_center_x
               in Inr (deviation_ratio > 0.4)
      | short \<Rightarrow> Inl (ValueError (unpack_msg (length short))))"

subsection \<open>Start-up and the endpoints\<close>

definition dummy_image :: image where
  "dummy_image = \<lparr>mode = ''RGB'', width = 640, height = 640, pixels = replicate (640 * 640 * 3) 0\<rparr>"

text \<open>
  \<open>lifespan\<close>: the handle is assigned as soon as the constructor returns; an exception
  of the warm-up call is caught after the assignment.
\<close>

definition lifespan :: "(string \<Rightarrow> py_exception + yolo_handle) \<Rightarrow> string \<Rightarrow> yolo_handle option" where
  "lifespan YOLO path =
     (case YOLO path of
        Inl e \<Rightarrow> None
      | Inr model \<Rightarrow>
          (case model dummy_image None of
             Inl e \<Rightarrow> Some model
           | Inr _ \<Rightarrow> Some model))"

text \<open>
  Whether start-up takes the \<open>except\<close> branch, the one that logs \<open>Failed to load
  model\<close> and \<open>Service will run without model\<close>: the constructor or the warm-up raised.
\<close>

definition load_failed :: "(string \<Rightarrow> py_exception + yolo_handle) \<Rightarrow> string \<Rightarrow> bool" where
  "load_failed YOLO path =
     (case YOLO path of
        Inl e \<Rightarrow> True
      | Inr model \<Rightarrow>
          (case model dummy_image None of
             Inl e \<Rightarrow> True
           | Inr _ \<Rightarrow> False))"

text \<open>A model object is truthy, so \<open>if yolo_model\<close> tests that the handle is present.\<close>

definition health_check :: "service \<Rightarrow> HealthResponse" where
  "health_check svc =
     \<lparr>status = (if yolo_model svc \<noteq> None then ''healthy'' else ''degraded''),
      model_loaded = (yolo_model svc \<noteq> None),
      model_path = MODEL_PATH svc,
      model_type = ''yolov8-face'',
      confidence_threshold = CONFIDENCE_THRESHOLD svc\<rparr>"

text \<open>The two nested loops that collect the detections of class 0.\<close>

fun collect_boxes ::
  "yolo_box list \<Rightarrow> real list list \<times> real list \<Rightarrow> real list list \<times> real list" where
  "collect_boxes [] acc = acc"
| "collect_boxes (box # rest) (bs, confidences) =
     collect_boxes rest
       (if py_int (cls box) = 0
        then (bs @ [xyxy box], confidences @ [conf box])
        else (bs, confidences))"

fun collect_results ::
  "yolo_result list \<Rightarrow> real list list \<times> real list \<Rightarrow> real list list \<times> real list" where
  "collect_results [] acc = acc"
| "collect_results (result # rest) acc =
     collect_results rest
       (case boxes result of None \<Rightarrow> acc | Some bs \<Rightarrow> collect_boxes bs acc)"

text \<open>
  The body of the \<open>try\<close> block of \<open>analyze_face\<close>. \<open>start_time\<close> and \<open>end_time\<close> are
  the two readings of the clock. The model is called on the array; the width is read from
  the image.
\<close>

definition analyze_body ::
  "runtime \<Rightarrow> service \<Rightarrow> yolo_handle \<Rightarrow> AnalyzeRequest \<Rightarrow> real \<Rightarrow> real \<Rightarrow> py_exception + AnalyzeResponse" where
  "analyze_body lib svc model request start_time end_time =
     (case decode_base64_image lib (MAX_IMAGE_SIZE svc) (image request) of
        Inl e \<Rightarrow> Inl e
      | Inr img \<Rightarrow>
     (case np_array lib img of
        Inl e \<Rightarrow> Inl e
      | Inr image_np \<Rightarrow>
     (case model image_np (Some (CONFIDENCE_THRESHOLD svc)) of
        Inl e \<Rightarrow> Inl e
      | Inr results \<Rightarrow>
          (case collect_results results ([], []) of
             (bs, confidences) \<Rightarrow>
               let count = int (length bs) in
               (case (if confidences \<noteq> [] then py_max confidences else Inr 0.0) of
                  Inl e \<Rightarrow> Inl e
                | Inr c \<Rightarrow>
               (case (if count = 1 then estimate_looking_away bs (width img) else Inr False) of
                  Inl e \<Rightarrow> Inl e
                | Inr away \<Rightarrow>
                    Inr \<lparr>success = True,
                         face_count = count,
                         confidence = c,
                         looking_away = away,
                         processing_time_ms = (end_time - start_time) * 1000,
                         bounding_boxes = Some bs,
                         error = None\<rparr>))))))"

definition mock_response :: "real \<Rightarrow> real \<Rightarrow> AnalyzeResponse" where
  "mock_response start_time end_time =
     \<lparr>success = True,
      face_count = 1,
      confidence = 0.95,
      looking_away = False,
      processing_time_ms = (end_time - start_time) * 1000,
      bounding_boxes = None,
      error = Some ''Model not loaded - mock response''\<rparr>"

definition analyze_face ::
  "runtime \<Rightarrow> service \<Rightarrow> AnalyzeRequest \<Rightarrow> real \<Rightarrow> real \<Rightarrow> http_exception + AnalyzeResponse" where
  "analyze_face lib svc request start_time end_time =
     (case yolo_model svc of
        None \<Rightarrow> Inr (mock_response start_time end_time)
      | Some model \<Rightarrow>
          (case analyze_body lib svc model request start_time end_time of
             Inr response \<Rightarrow> Inr response
           | Inl e \<Rightarrow>
               if is_ValueError e then Inl (HTTPException 400 (str_exc e))
               else Inl (HTTPException 500 (str_exc e))))"

text \<open>The status the framework sends: 200 for a returned body, else the exception's code.\<close>

fun status_code :: "http_exception + AnalyzeResponse \<Rightarrow> nat" where
  "status_code (Inr _) = 200"
| "status_code (Inl (HTTPException code _)) = code"

subsection \<open>The detections as a list\<close>

text \<open>What the two loops collect, written as a filter over all rows of all results.\<close>

definition result_boxes :: "yolo_result \<Rightarrow> yolo_box list" where
  "result_boxes result = (case boxes result of None \<Rightarrow> [] | Some bs \<Rightarrow> bs)"

definition person_detections :: "yolo_result list \<Rightarrow> yolo_box list" where
  "person_detections results =
     filter (\<lambda>box. py_int (cls box) = 0) (concat (map result_boxes results))"

subsection \<open>A small instance of the libraries, for concrete evaluation\<close>

definition stub_b64decode :: "string \<Rightarrow> py_exception + bytes" where
  "stub_b64decode s =
     (if length s mod 4 = 0 then Inr s else Inl (ValueError ''Incorrect padding''))"

definition stub_files :: "(bytes \<times> image) list" where
  "stub_files =
     [(''AAAA'', \<lparr>mode = ''RGB'', width = 640, height = 640, pixels = []\<rparr>),
      (''BBBB'', \<lparr>mode = ''RGB'', width = 1952, height = 1464, pixels = []\<rparr>),
      (''CCCC'', \<lparr>mode = ''L'', width = 100, height = 50, pixels = []\<rparr>),
      (''DDDD'', \<lparr>mode = ''RGB'', width = 2139, height = 100, pixels = []\<rparr>),
      (''EEEE'', \<lparr>mode = ''RGB'', width = 320, height = 240, pixels = []\<rparr>)]"

definition stub_open :: "bytes \<Rightarrow> py_exception + image" where
  "stub_open data =
     (case map_of stub_files data of
        Some img \<Rightarrow> Inr img
      | None \<Rightarrow> Inl (OtherException ''cannot identify image file''))"

definition stub_convert :: "image \<Rightarrow> string \<Rightarrow> py_exception + image" where
  "stub_convert img m = Inr (img\<lparr>mode := m\<rparr>)"

definition stub_resize :: "image \<Rightarrow> int \<times> int \<Rightarrow> py_exception + image" where
  "stub_resize img new_size =
     (if fst new_size < 1 \<or> snd new_size < 1
      then Inl (ValueError ''height and width must be > 0'')
      else Inr (img\<lparr>width := nat (fst new_size), height := nat (snd new_size)\<rparr>))"

text \<open>The file \<open>EEEE\<close> has a readable header and truncated pixel data.\<close>

definition stub_np_array :: "image \<Rightarrow> py_exception + image" where
  "stub_np_array img =
     (if width img = 320 \<and> height img = 240
      then Inl (OtherException ''image file is truncated'')
      else Inr img)"

text \<open>
  Rounding to the nearest double, ties to even: the argument is scaled by a power of two
  into the range of 53-bit integers, rounded there and scaled back. Outside the range the
  search covers, the value is left as it is.
\<close>

definition round_half_even :: "real \<Rightarrow> int" where
  "round_half_even r =
     (let f = \<lfloor>r\<rfloor>; d = r - real_of_int f
      in if d < 1 / 2 then f
         else if 1 / 2 < d then f + 1
         else if even f then f else f + 1)"

fun normalise :: "nat \<Rightarrow> real \<Rightarrow> real \<Rightarrow> real" where
  "normalise 0 x s = s"
| "normalise (Suc n) x s =
     (if x * s < 2 ^ 52 then normalise n x (s * 2)
      else if 2 ^ 53 \<le> x * s then normalise n x (s / 2)
      else s)"

definition to_double :: "real \<Rightarrow> real" where
  "to_double x =
     (let s = normalise 128 \<bar>x\<bar> 1
      in if 2 ^ 52 \<le> \<bar>x\<bar> * s \<and> \<bar>x\<bar> * s < 2 ^ 53
         then sgn x * real_of_int (round_half_even (\<bar>x\<bar> * s)) / s
         else x)"

definition stub_true_div :: "int \<Rightarrow> int \<Rightarrow> real" where
  "stub_true_div a b = to_double (real_of_int a / real_of_int b)"

definition stub_float_mul :: "int \<Rightarrow> real \<Rightarrow> real" where
  "stub_float_mul a r = to_double (real_of_int a * r)"

definition stub_runtime :: runtime where
  "stub_runtime = \<lparr>b64decode = stub_b64decode, image_open = stub_open,
                   convert = stub_convert, resize = stub_resize,
                   np_array = stub_np_array,
                   true_div = stub_true_div, float_mul = stub_float_mul\<rparr>"

definition stub_model :: "yolo_result list \<Rightarrow> yolo_handle" where
  "stub_model results = (\<lambda>img threshold. Inr results)"

definition failing_model :: "py_exception \<Rightarrow> yolo_handle" where
  "failing_model e = (\<lambda>img threshold. Inl e)"

text \<open>A constructor that returns a model whose every inference raises.\<close>

definition broken_YOLO :: "string \<Rightarrow> py_exception + yolo_handle" where
  "broken_YOLO path = Inr (failing_model (OtherException ''CUDA error''))"

definition stub_service :: "yolo_handle option \<Rightarrow> service" where
  "stub_service handle =
     \<lparr>MODEL_PATH = ''yolov8n-face.pt'', CONFIDENCE_THRESHOLD = 0.5,
      MAX_IMAGE_SIZE = 1280, yolo_model = handle\<rparr>"

definition stub_box :: "real \<Rightarrow> real \<Rightarrow> real \<Rightarrow> real \<Rightarrow> yolo_box" where
  "stub_box k x1 x2 c = \<lparr>cls = k, xyxy = [x1, 10, x2, 200], conf = c\<rparr>"

definition results_off_centre :: "yolo_result list" where
  "results_off_centre = [\<lparr>boxes = Some [stub_box 0 500 600 0.9]\<rparr>]"

definition results_boundary :: "yolo_result list" where
  "results_boundary = [\<lparr>boxes = Some [stub_box 0 398 498 0.8]\<rparr>]"

definition results_two :: "yolo_result list" where
  "results_two =
     [\<lparr>boxes = Some [stub_box 0 500 600 0.7, stub_box 2 0 50 0.99, stub_box 0 0 100 0.9]\<rparr>,
      \<lparr>boxes = None\<rparr>]"

subsection \<open>Vocabulary of the properties\<close>

text \<open>The characters of a base64 encoding (standard alphabet and padding).\<close>

definition base64_alphabet :: string where
  "base64_alphabet =
     ''ABCDEFGHIJKLMNOPQRSTUVWXYZabcdefghijklmnopqrstuvwxyz0123456789+/=''"

text \<open>
  What the decoder relies on. From PIL: \<open>convert\<close> keeps the size, and \<open>resize\<close>, when
  it returns, returns an image of the requested size. From double arithmetic: a quotient
  and a product are the exact ones up to a relative error of \<open>1 / 2 ^ 53\<close>.
\<close>

definition runtime_contract :: "runtime \<Rightarrow> bool" where
  "runtime_contract lib \<longleftrightarrow>
     (\<forall>img m img'. convert lib img m = Inr img' \<longrightarrow>
        width img' = width img \<and> height img' = height img) \<and>
     (\<forall>img new_size img'. resize lib img new_size = Inr img' \<longrightarrow>
        int (width img') = fst new_size \<and> int (height img') = snd new_size) \<and>
     (\<forall>a b. b \<noteq> 0 \<longrightarrow>
        \<bar>true_div lib a b - real_of_int a / real_of_int b\<bar>
          \<le> \<bar>real_of_int a / real_of_int b\<bar> / 2 ^ 53) \<and>
     (\<forall>a r. \<bar>float_mul lib a r - real_of_int a * r\<bar> \<le> \<bar>real_of_int a * r\<bar> / 2 ^ 53)"

section \<open>Properties\<close>

subsection \<open>Auxiliary facts\<close>

lemma py_split_nonempty: "py_split sep s \<noteq> []"
  by (induction s) (auto split: list.splits)

lemma py_split_no_sep: "sep \<notin> set s \<Longrightarrow> py_split sep s = [s]"
  by (induction s) auto

lemma py_split_prefix: "sep \<notin> set p \<Longrightarrow> py_split sep (p @ sep # b) = p # py_split sep b"
  by (induction p) auto

lemma py_split_length: "sep \<in> set s \<Longrightarrow> 2 \<le> length (py_split sep s)"
proof (induction s)
  case Nil
  then show ?case by simp
next
  case (Cons c cs)
  show ?case
  proof (cases "c = sep")
    case True
    then show ?thesis using py_split_nonempty [of sep cs]
      by (cases "py_split sep cs") auto
  next
    case False
    with Cons have "2 \<le> length (py_split sep cs)" by simp
    with False show ?thesis by (cases "py_split sep cs") auto
  qed
qed

lemma strip_data_url_total: "\<exists>t. strip_data_url s = Inr t"
proof (cases "CHR '','' \<in> set s")
  case True
  then have "2 \<le> length (py_split CHR '','' s)" by (rule py_split_length)
  then obtain a b r where "py_split CHR '','' s = a # b # r"
    by (cases "py_split CHR '','' s"; cases "tl (py_split CHR '','' s)") auto
  with True show ?thesis by (simp add: strip_data_url_def)
next
  case False
  then show ?thesis by (simp add: strip_data_url_def)
qed

lemma decode_failure_is_ValueError:
  assumes "decode_base64_image lib m s = Inl e"
  shows "\<exists>msg. e = ValueError (''Invalid image data: '' @ msg)"
proof -
  obtain t where t: "strip_data_url s = Inr t" using strip_data_url_total by blast
  with assms show ?thesis
    by (auto simp: decode_base64_image_def split: sum.splits)
qed

lemma collect_boxes_eq:
  "collect_boxes bs (B, C) =
     (B @ map xyxy (filter (\<lambda>box. py_int (cls box) = 0) bs),
      C @ map conf (filter (\<lambda>box. py_int (cls box) = 0) bs))"
  by (induction bs arbitrary: B C) auto

lemma collect_results_eq:
  "collect_results rs (B, C) =
     (B @ map xyxy (person_detections rs), C @ map conf (person_detections rs))"
  by (induction rs arbitrary: B C)
     (auto simp: person_detections_def result_boxes_def collect_boxes_eq split: option.splits)

lemma foldl_max_eq: "foldl (\<lambda>m y. if m < y then y else m) x xs = Max (set (x # xs))"
proof (induction xs arbitrary: x)
  case Nil
  then show ?case by simp
next
  case (Cons y ys)
  have "Max (set (x # y # ys)) = Max (set ((if x < y then y else x) # ys))"
    by (cases ys) (auto simp: max_def)
  with Cons show ?case by simp
qed

lemma py_max_eq: "xs \<noteq> [] \<Longrightarrow> py_max xs = Inr (Max (set xs))"
  by (cases xs) (simp_all add: foldl_max_eq del: set_simps)

lemma analyze_body_composed:
  assumes "decode_base64_image lib (MAX_IMAGE_SIZE svc) (image request) = Inr img"
    and "np_array lib img = Inr image_np"
    and "model image_np (Some (CONFIDENCE_THRESHOLD svc)) = Inr results"
  shows "analyze_body lib svc model request started finished =
    (case (if length (person_detections results) = 1
           then estimate_looking_away (map xyxy (person_detections results)) (width img)
           else Inr False) of
       Inl e \<Rightarrow> Inl e
     | Inr away \<Rightarrow>
         Inr \<lparr>success = True,
              face_count = int (length (person_detections results)),
              confidence = (if person_detections results = [] then 0
                            else Max (set (map conf (person_detections results)))),
              looking_away = away,
              processing_time_ms = (finished - started) * 1000,
              bounding_boxes = Some (map xyxy (person_detections results)),
              error = None\<rparr>)"
proof -
  have c: "collect_results results ([], []) =
      (map xyxy (person_detections results), map conf (person_detections results))"
    using collect_results_eq [of results "[]" "[]"] by simp
  show ?thesis
  proof (cases "person_detections results = []")
    case True
    with assms c show ?thesis by (simp add: analyze_body_def)
  next
    case False
    then have "py_max (map conf (person_detections results)) =
        Inr (Max (set (map conf (person_detections results))))"
      by (simp add: py_max_eq)
    with False assms c show ?thesis
      by (simp add: analyze_body_def split: sum.splits)
  qed
qed

lemma estimate_single:
  assumes "b = x1 # y1 # x2 # y2 # rest" and "0 < w"
  shows "estimate_looking_away [b] w = Inr (0.4 < \<bar>(x1 + x2) / 2 - real w / 2\<bar> / (real w / 2))"
  using assms by simp

lemma short_list_cases:
  assumes "length (b :: real list) < 4"
  shows "b = [] \<or> (\<exists>p. b = [p]) \<or> (\<exists>p q. b = [p, q]) \<or> (\<exists>p q r. b = [p, q, r])"
proof (cases b)
  case Nil
  then show ?thesis by simp
next
  case (Cons p b1)
  note b = this
  show ?thesis
  proof (cases b1)
    case Nil
    with b show ?thesis by simp
  next
    case (Cons q b2)
    note b1 = this
    show ?thesis
    proof (cases b2)
      case Nil
      with b b1 show ?thesis by simp
    next
      case (Cons r b3)
      with b b1 assms have "b3 = []" by simp
      with b b1 Cons show ?thesis by simp
    qed
  qed
qed

lemma estimate_raises:
  assumes "length b < 4 \<or> w = 0"
  shows "\<exists>e. estimate_looking_away [b] w = Inl e"
proof (cases "length b < 4")
  case True
  then show ?thesis using short_list_cases [of b] by auto
next
  case False
  with assms have "w = 0" by simp
  then show ?thesis by (simp split: list.splits)
qed

text \<open>Concrete evaluations of the decoder on the small library instance.\<close>

lemma decode_AAAA:
  "decode_base64_image stub_runtime 1280 ''AAAA'' =
     Inr \<lparr>mode = ''RGB'', width = 640, height = 640, pixels = []\<rparr>"
  by (simp add: decode_base64_image_def strip_data_url_def try_decode_def stub_runtime_def
      stub_b64decode_def stub_open_def stub_files_def)

lemma np_AAAA:
  "np_array stub_runtime \<lparr>mode = ''RGB'', width = 640, height = 640, pixels = []\<rparr> =
     Inr \<lparr>mode = ''RGB'', width = 640, height = 640, pixels = []\<rparr>"
  by (simp add: stub_runtime_def stub_np_array_def)

lemma decode_bad_padding:
  "decode_base64_image stub_runtime 1280 ''!!!'' =
     Inl (ValueError ''Invalid image data: Incorrect padding'')"
  by (simp add: decode_base64_image_def strip_data_url_def try_decode_def stub_runtime_def
      stub_b64decode_def)

lemma detections_off_centre: "person_detections results_off_centre = [stub_box 0 500 600 0.9]"
  by (simp add: person_detections_def result_boxes_def results_off_centre_def stub_box_def
      py_int_def)

lemma detections_boundary: "person_detections results_boundary = [stub_box 0 398 498 0.8]"
  by (simp add: person_detections_def result_boxes_def results_boundary_def stub_box_def
      py_int_def)

lemma detections_two:
  "person_detections results_two = [stub_box 0 500 600 0.7, stub_box 0 0 100 0.9]"
  by (simp add: person_detections_def result_boxes_def results_two_def stub_box_def
      py_int_def)

subsection \<open>The looking-away flag\<close>

text \<open>
  C1. Python floats read as reals. When the model is loaded, the image decodes and
  converts to an array, and the class filter leaves exactly one detection (with its four corners, in an image of
  positive width), the request is answered with \<open>face_count = 1\<close> and \<open>looking_away\<close>
  is true exactly when the distance of the box's horizontal centre \<open>(x1 + x2) / 2\<close> from
  the image's centre \<open>width / 2\<close>, divided by \<open>width / 2\<close>, is strictly greater than
  0.4; at 0.4 or below it is false.
\<close>

theorem looking_away_threshold:
  assumes "yolo_model svc = Some model"
    and "decode_base64_image lib (MAX_IMAGE_SIZE svc) (image request) = Inr img"
    and "np_array lib img = Inr image_np"
    and "model image_np (Some (CONFIDENCE_THRESHOLD svc)) = Inr results"
    and "person_detections results = [d]"
    and "xyxy d = x1 # y1 # x2 # y2 # rest"
    and "0 < width img"
  shows "\<exists>response. analyze_face lib svc request started finished = Inr response
           \<and> face_count response = 1
           \<and> looking_away response =
               (0.4 < \<bar>(x1 + x2) / 2 - real (width img) / 2\<bar> / (real (width img) / 2))"
proof -
  have "estimate_looking_away [xyxy d] (width img) =
      Inr (0.4 < \<bar>(x1 + x2) / 2 - real (width img) / 2\<bar> / (real (width img) / 2))"
    using assms(6,7) by (rule estimate_single)
  then show ?thesis
    using assms(1,5)
      analyze_body_composed [where model = model and started = started
        and finished = finished, OF assms(2,3,4)]
    by (simp add: analyze_face_def)
qed

theorem looking_away_threshold_witness:
  "(\<exists>response. analyze_face stub_runtime (stub_service (Some (stub_model results_off_centre)))
        \<lparr>image = ''AAAA''\<rparr> 0 1 = Inr response
      \<and> face_count response = 1 \<and> looking_away response = True)
   \<and> (\<exists>response. analyze_face stub_runtime (stub_service (Some (stub_model results_boundary)))
        \<lparr>image = ''AAAA''\<rparr> 0 1 = Inr response
      \<and> face_count response = 1 \<and> looking_away response = False)"
proof -
  let ?img = "\<lparr>mode = ''RGB'', width = 640, height = 640, pixels = []\<rparr>"
  have a: "\<exists>response. analyze_face stub_runtime (stub_service (Some (stub_model results_off_centre)))
        \<lparr>image = ''AAAA''\<rparr> 0 1 = Inr response
      \<and> face_count response = 1 \<and> looking_away response = True"
    using looking_away_threshold [where svc = "stub_service (Some (stub_model results_off_centre))"
        and model = "stub_model results_off_centre" and lib = stub_runtime
        and request = "\<lparr>image = ''AAAA''\<rparr>" and img = ?img and image_np = ?img
        and results = results_off_centre and d = "stub_box 0 500 600 0.9"
        and ?x1.0 = 500 and ?y1.0 = 10 and ?x2.0 = 600 and ?y2.0 = 200 and rest = "[]"
        and started = 0 and finished = 1]
    by (simp add: stub_service_def stub_model_def decode_AAAA np_AAAA detections_off_centre stub_box_def)
  have b: "\<exists>response. analyze_face stub_runtime (stub_service (Some (stub_model results_boundary)))
        \<lparr>image = ''AAAA''\<rparr> 0 1 = Inr response
      \<and> face_count response = 1 \<and> looking_away response = False"
    using looking_away_threshold [where svc = "stub_service (Some (stub_model results_boundary))"
        and model = "stub_model results_boundary" and lib = stub_runtime
        and request = "\<lparr>image = ''AAAA''\<rparr>" and img = ?img and image_np = ?img
        and results = results_boundary and d = "stub_box 0 398 498 0.8"
        and ?x1.0 = 398 and ?y1.0 = 10 and ?x2.0 = 498 and ?y2.0 = 200 and rest = "[]"
        and started = 0 and finished = 1]
    by (simp add: stub_service_def stub_model_def decode_AAAA np_AAAA detections_boundary stub_box_def)
  from a b show ?thesis by (rule conjI)
qed

text \<open>
  What keeps a single detection from being answered: a box with fewer than four
  coordinates, or an image of width 0.
\<close>

lemma single_detection_not_answered:
  assumes "yolo_model svc = Some model"
    and "decode_base64_image lib (MAX_IMAGE_SIZE svc) (image request) = Inr img"
    and "np_array lib img = Inr image_np"
    and "model image_np (Some (CONFIDENCE_THRESHOLD svc)) = Inr results"
    and "person_detections results = [d]"
    and "length (xyxy d) < 4 \<or> width img = 0"
  shows "\<exists>code detail. analyze_face lib svc request started finished =
           Inl (HTTPException code detail)"
proof -
  have "\<exists>e. estimate_looking_away [xyxy d] (width img) = Inl e"
    using assms(6) by (rule estimate_raises)
  then show ?thesis
    using assms(1,5)
      analyze_body_composed [where model = model and started = started
        and finished = finished, OF assms(2,3,4)]
    by (auto simp: analyze_face_def)
qed

text \<open>
  C2. When the model is loaded, the image decodes and converts to an array, and the
  number of detections that pass the class filter is not 1, the request is answered, \<open>face_count\<close> is that number and
  \<open>looking_away\<close> is false, whatever the boxes are.
\<close>

theorem looking_away_false_unless_one:
  assumes "yolo_model svc = Some model"
    and "decode_base64_image lib (MAX_IMAGE_SIZE svc) (image request) = Inr img"
    and "np_array lib img = Inr image_np"
    and "model image_np (Some (CONFIDENCE_THRESHOLD svc)) = Inr results"
    and "length (person_detections results) \<noteq> 1"
  shows "\<exists>response. analyze_face lib svc request started finished = Inr response
           \<and> face_count response = int (length (person_detections results))
           \<and> looking_away response = False"
  using assms(1,5)
    analyze_body_composed [where model = model and started = started
      and finished = finished, OF assms(2,3,4)]
  by (simp add: analyze_face_def)

theorem looking_away_false_unless_one_witness:
  "\<exists>response. analyze_face stub_runtime (stub_service (Some (stub_model results_two)))
        \<lparr>image = ''AAAA''\<rparr> 0 1 = Inr response
      \<and> face_count response = 2 \<and> looking_away response = False"
  using looking_away_false_unless_one [where svc = "stub_service (Some (stub_model results_two))"
      and model = "stub_model results_two" and lib = stub_runtime
      and request = "\<lparr>image = ''AAAA''\<rparr>"
      and img = "\<lparr>mode = ''RGB'', width = 640, height = 640, pixels = []\<rparr>"
      and image_np = "\<lparr>mode = ''RGB'', width = 640, height = 640, pixels = []\<rparr>"
      and results = results_two and started = 0 and finished = 1]
  by (simp add: stub_service_def stub_model_def decode_AAAA np_AAAA detections_two)

subsection \<open>The confidence field\<close>


lemma analyze_two:
  "analyze_face stub_runtime (stub_service (Some (stub_model results_two)))
     \<lparr>image = ''AAAA''\<rparr> 0 1 =
   Inr \<lparr>success = True, face_count = 2, confidence = 0.9, looking_away = False,
        processing_time_ms = 1000,
        bounding_boxes = Some [[500, 10, 600, 200], [0, 10, 100, 200]], error = None\<rparr>"
proof -
  have "analyze_body stub_runtime (stub_service (Some (stub_model results_two)))
      (stub_model results_two) \<lparr>image = ''AAAA''\<rparr> 0 1 =
    Inr \<lparr>success = True, face_count = 2, confidence = 0.9, looking_away = False,
        processing_time_ms = 1000,
        bounding_boxes = Some [[500, 10, 600, 200], [0, 10, 100, 200]], error = None\<rparr>"
    using analyze_body_composed [where lib = stub_runtime
        and svc = "stub_service (Some (stub_model results_two))"
        and model = "stub_model results_two" and request = "\<lparr>image = ''AAAA''\<rparr>"
        and img = "\<lparr>mode = ''RGB'', width = 640, height = 640, pixels = []\<rparr>"
        and image_np = "\<lparr>mode = ''RGB'', width = 640, height = 640, pixels = []\<rparr>"
        and results = results_two and started = 0 and finished = 1]
    by (simp add: stub_service_def stub_model_def decode_AAAA np_AAAA detections_two stub_box_def)
  then show ?thesis by (simp add: analyze_face_def stub_service_def)
qed


subsection \<open>Degraded mode\<close>

text \<open>
  The handle is \<open>None\<close> after start-up exactly when the constructor \<open>YOLO(MODEL_PATH)\<close>
  raised. An exception of the warm-up call takes the same \<open>except\<close> branch, but leaves
  the handle assigned.
\<close>

lemma lifespan_None_iff: "lifespan YOLO path = None \<longleftrightarrow> (\<exists>e. YOLO path = Inl e)"
  by (cases "YOLO path") (auto simp: lifespan_def split: sum.splits)

lemma lifespan_keeps_constructed: "YOLO path = Inr model \<Longrightarrow> lifespan YOLO path = Some model"
  by (simp add: lifespan_def split: sum.splits)

lemma load_failed_iff:
  "load_failed YOLO path \<longleftrightarrow>
     (\<exists>e. YOLO path = Inl e) \<or> (\<exists>model e. YOLO path = Inr model \<and> model dummy_image None = Inl e)"
  by (cases "YOLO path") (auto simp: load_failed_def split: sum.splits)

text \<open>
  With the handle \<open>None\<close>, every request, whatever its image field holds, is answered with
  status 200 and the fixed payload.
\<close>

lemma mock_when_handle_None:
  assumes "yolo_model svc = None"
  shows "\<exists>response. analyze_face lib svc request started finished = Inr response
           \<and> status_code (analyze_face lib svc request started finished) = 200
           \<and> success response = True
           \<and> face_count response = 1
           \<and> confidence response = 0.95
           \<and> looking_away response = False
           \<and> processing_time_ms response = (finished - started) * 1000
           \<and> bounding_boxes response = None
           \<and> error response = Some ''Model not loaded - mock response''"
  using assms by (simp add: analyze_face_def mock_response_def)

lemma constructor_failure_mocked:
  assumes "YOLO (MODEL_PATH svc) = Inl e"
    and "yolo_model svc = lifespan YOLO (MODEL_PATH svc)"
  shows "analyze_face lib svc request started finished = Inr (mock_response started finished)"
  using assms by (simp add: analyze_face_def lifespan_def)

text \<open>
  C4. The claim promises the mock payload whenever the model failed to initialize at
  start-up. The code does so when the constructor raised, but not when the warm-up raised:
  here the constructor returns a model whose every inference raises, start-up takes the
  \<open>Failed to load model\<close> branch, the handle stays assigned, and \<open>/analyze\<close> answers a
  decodable image with status 500 and an undecodable one with status 400.
\<close>

theorem warmup_failure_not_mocked:
  "load_failed broken_YOLO ''yolov8n-face.pt'' = True
   \<and> analyze_face stub_runtime (stub_service (lifespan broken_YOLO ''yolov8n-face.pt''))
        \<lparr>image = ''AAAA''\<rparr> 0 1 = Inl (HTTPException 500 ''CUDA error'')
   \<and> analyze_face stub_runtime (stub_service (lifespan broken_YOLO ''yolov8n-face.pt''))
        \<lparr>image = ''!!!''\<rparr> 0 1 =
      Inl (HTTPException 400 ''Invalid image data: Incorrect padding'')"
  by (simp add: load_failed_def lifespan_def broken_YOLO_def failing_model_def
      analyze_face_def analyze_body_def stub_service_def decode_AAAA np_AAAA decode_bad_padding)

subsection \<open>Error statuses\<close>

text \<open>
  C5, as stated, fails: with the model handle absent, a request whose image does not
  decode is answered with status 200.
\<close>

theorem invalid_image_counterexample:
  "decode_base64_image stub_runtime (MAX_IMAGE_SIZE (stub_service None))
       (image \<lparr>image = ''!!!''\<rparr>) =
     Inl (ValueError ''Invalid image data: Incorrect padding'')
   \<and> status_code (analyze_face stub_runtime (stub_service None) \<lparr>image = ''!!!''\<rparr> 0 1) = 200"
  by (simp add: decode_bad_padding stub_service_def analyze_face_def)

text \<open>
  C5, amended. When the model is loaded, every request for whose image field
  \<open>decode_base64_image\<close> raises (the base64 text does not decode, the bytes are not an
  image that can be identified, or the conversion or the resize fails) is answered with
  status 400 and a detail that starts with \<open>Invalid image data: \<close>.
\<close>

theorem invalid_image_400:
  assumes "yolo_model svc = Some model"
    and "decode_base64_image lib (MAX_IMAGE_SIZE svc) (image request) = Inl e"
  shows "\<exists>msg. analyze_face lib svc request started finished =
           Inl (HTTPException 400 (''Invalid image data: '' @ msg))"
proof -
  obtain msg where "e = ValueError (''Invalid image data: '' @ msg)"
    using decode_failure_is_ValueError [OF assms(2)] by blast
  with assms show ?thesis
    by (simp add: analyze_face_def analyze_body_def)
qed

theorem invalid_image_400_witness:
  "\<exists>msg. analyze_face stub_runtime (stub_service (Some (stub_model []))) \<lparr>image = ''!!!''\<rparr> 0 1 =
           Inl (HTTPException 400 (''Invalid image data: '' @ msg))"
proof -
  have h1: "yolo_model (stub_service (Some (stub_model []))) = Some (stub_model [])"
    by (simp add: stub_service_def)
  have h2: "decode_base64_image stub_runtime (MAX_IMAGE_SIZE (stub_service (Some (stub_model []))))
      (image \<lparr>image = ''!!!''\<rparr>) = Inl (ValueError ''Invalid image data: Incorrect padding'')"
    by (simp add: stub_service_def decode_bad_padding)
  show ?thesis by (rule invalid_image_400 [OF h1 h2])
qed

text \<open>Malformed base64 and unidentifiable bytes are two ways for the decoder to fail.\<close>

lemma decode_fails_on_bad_base64:
  assumes "strip_data_url s = Inr payload" and "b64decode lib payload = Inl e"
  shows "decode_base64_image lib m s = Inl (ValueError (''Invalid image data: '' @ str_exc e))"
  using assms by (simp add: decode_base64_image_def try_decode_def)

lemma decode_fails_on_bad_bytes:
  assumes "strip_data_url s = Inr payload" and "b64decode lib payload = Inr data"
    and "image_open lib data = Inl e"
  shows "decode_base64_image lib m s = Inl (ValueError (''Invalid image data: '' @ str_exc e))"
  using assms by (simp add: decode_base64_image_def try_decode_def)

text \<open>
  An image that the decoder returns and whose pixel data fail to load only at the
  conversion to an array is answered by the exception's class, without the prefix of the
  decoder.
\<close>

lemma array_conversion_failure:
  assumes "yolo_model svc = Some model"
    and "decode_base64_image lib (MAX_IMAGE_SIZE svc) (image request) = Inr img"
    and "np_array lib img = Inl e"
  shows "analyze_face lib svc request started finished =
           Inl (HTTPException (if is_ValueError e then 400 else 500) (str_exc e))"
  using assms by (simp add: analyze_face_def analyze_body_def)

lemma decode_EEEE:
  "decode_base64_image stub_runtime 1280 ''EEEE'' =
     Inr \<lparr>mode = ''RGB'', width = 320, height = 240, pixels = []\<rparr>"
  by (simp add: decode_base64_image_def strip_data_url_def try_decode_def stub_runtime_def
      stub_b64decode_def stub_open_def stub_files_def)

lemma truncated_image_500:
  "analyze_face stub_runtime (stub_service (Some (stub_model []))) \<lparr>image = ''EEEE''\<rparr> 0 1 =
     Inl (HTTPException 500 ''image file is truncated'')"
proof -
  have "np_array stub_runtime \<lparr>mode = ''RGB'', width = 320, height = 240, pixels = []\<rparr> =
      Inl (OtherException ''image file is truncated'')"
    by (simp add: stub_runtime_def stub_np_array_def)
  then show ?thesis
    by (simp add: analyze_face_def analyze_body_def stub_service_def decode_EEEE)
qed

text \<open>
  C6. The claim promises status 500 for every exception of the inference call. The code
  answers by the class of the exception: a \<open>ValueError\<close> raised by the inference call, on
  an image that decodes, reaches the \<open>except ValueError\<close> clause meant for the decoder
  and is answered with status 400.
\<close>

theorem inference_ValueError_400:
  "decode_base64_image stub_runtime
       (MAX_IMAGE_SIZE (stub_service (Some (failing_model (ValueError ''bad input'')))))
       (image \<lparr>image = ''AAAA''\<rparr>) =
     Inr \<lparr>mode = ''RGB'', width = 640, height = 640, pixels = []\<rparr>
   \<and> analyze_face stub_runtime (stub_service (Some (failing_model (ValueError ''bad input''))))
       \<lparr>image = ''AAAA''\<rparr> 0 1 = Inl (HTTPException 400 ''bad input'')"
  by (simp add: stub_service_def decode_AAAA np_AAAA analyze_face_def analyze_body_def
      failing_model_def)

text \<open>Any other exception of the inference call is answered with status 500.\<close>

lemma inference_exception_500:
  assumes "yolo_model svc = Some model"
    and "decode_base64_image lib (MAX_IMAGE_SIZE svc) (image request) = Inr img"
    and "np_array lib img = Inr image_np"
    and "model image_np (Some (CONFIDENCE_THRESHOLD svc)) = Inl e"
    and "\<not> is_ValueError e"
  shows "analyze_face lib svc request started finished = Inl (HTTPException 500 (str_exc e))"
  using assms by (simp add: analyze_face_def analyze_body_def)

text \<open>Every error status of the handler is 400 or 500.\<close>

lemma error_status_codes:
  assumes "analyze_face lib svc request started finished = Inl (HTTPException code detail)"
  shows "code = 400 \<or> code = 500"
  using assms by (auto simp: analyze_face_def split: option.splits sum.splits if_splits)

subsection \<open>The data-URL prefix\<close>

lemma comma_not_base64: "CHR '','' \<notin> set base64_alphabet"
  by (simp add: base64_alphabet_def)

lemma strip_data_url_bare: "CHR '','' \<notin> set b \<Longrightarrow> strip_data_url b = Inr b"
  by (simp add: strip_data_url_def)

lemma strip_data_url_prefixed:
  assumes "CHR '','' \<notin> set header" and "CHR '','' \<notin> set b"
  shows "strip_data_url (header @ '','' @ b) = Inr b"
proof -
  have "py_split CHR '','' (header @ CHR '','' # b) = header # py_split CHR '','' b"
    using assms(1) by (rule py_split_prefix)
  also have "py_split CHR '','' b = [b]" using assms(2) by (rule py_split_no_sep)
  finally show ?thesis by (simp add: strip_data_url_def)
qed

text \<open>
  C7. For every base64 text \<open>b\<close> and every data-URL header (a prefix that ends at its
  only comma), decoding the prefixed string gives the same result as decoding \<open>b\<close>.
\<close>

theorem data_url_prefix_ignored:
  assumes "CHR '','' \<notin> set header" and "set b \<subseteq> set base64_alphabet"
  shows "decode_base64_image lib m (header @ '','' @ b) = decode_base64_image lib m b"
proof -
  have nb: "CHR '','' \<notin> set b" using assms(2) comma_not_base64 by blast
  show ?thesis
    by (simp only: decode_base64_image_def strip_data_url_prefixed [OF assms(1) nb]
        strip_data_url_bare [OF nb])
qed

theorem data_url_prefix_ignored_witness:
  "decode_base64_image stub_runtime 1280 (''data:image/png;base64'' @ '','' @ ''CCCC'') =
     decode_base64_image stub_runtime 1280 ''CCCC''
   \<and> decode_base64_image stub_runtime 1280 ''CCCC'' =
     Inr \<lparr>mode = ''RGB'', width = 100, height = 50, pixels = []\<rparr>"
proof -
  have h1: "CHR '','' \<notin> set ''data:image/png;base64''" by simp
  have h2: "set ''CCCC'' \<subseteq> set base64_alphabet" by (simp add: base64_alphabet_def)
  have "decode_base64_image stub_runtime 1280 ''CCCC'' =
      Inr \<lparr>mode = ''RGB'', width = 100, height = 50, pixels = []\<rparr>"
    by (simp add: decode_base64_image_def strip_data_url_def try_decode_def stub_runtime_def
        stub_b64decode_def stub_open_def stub_files_def stub_convert_def)
  with data_url_prefix_ignored [OF h1 h2, of stub_runtime 1280] show ?thesis by simp
qed

subsection \<open>The health endpoint\<close>

text \<open>
  \<open>/health\<close> reports \<open>model_loaded\<close> false and status \<open>degraded\<close> exactly when the handle
  is \<open>None\<close>, true and \<open>healthy\<close> otherwise, and always the configured model path and
  confidence threshold.
\<close>

lemma health_check_handle:
  "(yolo_model svc = None \<longleftrightarrow>
      model_loaded (health_check svc) = False \<and> status (health_check svc) = ''degraded'')
   \<and> (yolo_model svc \<noteq> None \<longrightarrow>
      model_loaded (health_check svc) = True \<and> status (health_check svc) = ''healthy'')
   \<and> model_path (health_check svc) = MODEL_PATH svc
   \<and> confidence_threshold (health_check svc) = CONFIDENCE_THRESHOLD svc"
  by (simp add: health_check_def)

lemma constructor_failure_degraded:
  assumes "YOLO (MODEL_PATH svc) = Inl e"
    and "yolo_model svc = lifespan YOLO (MODEL_PATH svc)"
  shows "status (health_check svc) = ''degraded'' \<and> model_loaded (health_check svc) = False"
  using assms by (simp add: health_check_def lifespan_def)

text \<open>
  C9. The claim promises \<open>degraded\<close> and \<open>model_loaded\<close> false exactly when the model
  failed to initialize. The code does so when the constructor raised, but not when the
  warm-up raised: here start-up takes the \<open>Failed to load model\<close> branch, the handle
  stays assigned, and \<open>/health\<close> reports \<open>healthy\<close> and \<open>model_loaded\<close> true.
\<close>

theorem warmup_failure_reported_healthy:
  "load_failed broken_YOLO ''yolov8n-face.pt'' = True
   \<and> status (health_check (stub_service (lifespan broken_YOLO ''yolov8n-face.pt''))) = ''healthy''
   \<and> model_loaded (health_check (stub_service (lifespan broken_YOLO ''yolov8n-face.pt''))) = True"
  by (simp add: load_failed_def lifespan_def broken_YOLO_def failing_model_def
      health_check_def stub_service_def)

subsection \<open>The success flag\<close>

text \<open>
  C10. Every body the handler returns has \<open>success\<close> true (and is sent with status
  200): failures leave the handler as HTTP exceptions, never as a body.
\<close>

theorem returned_body_success:
  assumes "analyze_face lib svc request started finished = Inr response"
  shows "success response = True
         \<and> status_code (analyze_face lib svc request started finished) = 200"
proof (cases "yolo_model svc")
  case None
  with assms show ?thesis by (auto simp: analyze_face_def mock_response_def)
next
  case (Some model)
  with assms have "analyze_body lib svc model request started finished = Inr response"
    by (auto simp: analyze_face_def split: sum.splits if_splits)
  then have "success response = True"
    by (auto simp: analyze_body_def Let_def split: sum.splits prod.splits if_splits)
  with assms show ?thesis by simp
qed

theorem returned_body_success_witness:
  "success \<lparr>success = True, face_count = 2, confidence = 0.9, looking_away = False,
        processing_time_ms = 1000,
        bounding_boxes = Some [[500, 10, 600, 200], [0, 10, 100, 200]], error = None\<rparr> = True
   \<and> status_code (analyze_face stub_runtime (stub_service (Some (stub_model results_two)))
        \<lparr>image = ''AAAA''\<rparr> 0 1) = 200"
  by (rule returned_body_success [OF analyze_two])

subsection \<open>The size of the decoded image\<close>

text \<open>\<open>int()\<close> truncates towards zero.\<close>

lemma py_int_bounds:
  "x - 1 < real_of_int (py_int x) \<and> real_of_int (py_int x) \<le> max x 0"
proof (cases "0 \<le> x")
  case True
  then show ?thesis by (simp add: py_int_def)
next
  case False
  then have "\<lceil>x\<rceil> \<le> 0" by (simp add: ceiling_le_iff)
  then have "real_of_int \<lceil>x\<rceil> \<le> 0" by simp
  moreover have "x \<le> real_of_int \<lceil>x\<rceil>" by simp
  ultimately have "x - 1 < real_of_int \<lceil>x\<rceil> \<and> real_of_int \<lceil>x\<rceil> \<le> max x 0"
    by linarith
  with False show ?thesis by (simp add: py_int_def)
qed

text \<open>
  A side \<open>a\<close> scaled by the computed ratio: the double product is within a quarter of
  the exact \<open>a * m / M\<close>, when the maximum \<open>m\<close> is below \<open>2 ^ 49\<close>.
\<close>

lemma scaled_side_error:
  assumes contract: "runtime_contract lib"
    and M: "0 < M" and a: "a \<le> M" and m0: "0 \<le> m" and m49: "m < 2 ^ 49"
  shows "\<bar>float_mul lib (int a) (true_div lib m (int M)) - real a * real_of_int m / real M\<bar>
           < 1 / 4"
proof -
  define q where "q = real_of_int m / real M"
  define x where "x = real a * q"
  define r where "r = true_div lib m (int M)"
  define p where "p = float_mul lib (int a) r"
  define d where "d = x / 2 ^ 53"
  have q0: "0 \<le> q" using m0 M by (simp add: q_def)
  have x0: "0 \<le> x" using q0 by (simp add: x_def)
  have "real a * real_of_int m \<le> real M * real_of_int m"
    using a m0 by (intro mult_right_mono) simp_all
  then have "x \<le> real_of_int m" using M by (simp add: x_def q_def field_simps)
  also have "real_of_int m < 2 ^ 49"
  proof -
    have "real_of_int m < real_of_int (2 ^ 49)" using m49 by (simp only: of_int_less_iff)
    then show ?thesis by simp
  qed
  finally have x49: "x < 2 ^ 49" .
  have "int M \<noteq> 0" using M by simp
  with contract have "\<bar>true_div lib m (int M) - real_of_int m / real_of_int (int M)\<bar>
      \<le> \<bar>real_of_int m / real_of_int (int M)\<bar> / 2 ^ 53"
    unfolding runtime_contract_def by blast
  then have rq: "\<bar>r - q\<bar> \<le> q / 2 ^ 53" using q0 by (simp add: r_def q_def)
  have "\<bar>real a * r - x\<bar> = real a * \<bar>r - q\<bar>"
    by (simp add: x_def abs_mult right_diff_distrib [symmetric])
  also have "\<dots> \<le> real a * (q / 2 ^ 53)" using rq by (intro mult_left_mono) simp_all
  finally have "\<bar>real a * r - x\<bar> \<le> x / 2 ^ 53" by (simp add: x_def)
  then have ar: "\<bar>real a * r - x\<bar> \<le> d" by (simp only: d_def)
  have d0: "0 \<le> d" using x0 by (simp add: d_def)
  have dx: "d \<le> x" using x0 by (simp add: d_def field_simps)
  have "d < 2 ^ 49 / 2 ^ 53"
    unfolding d_def using x49 by (intro divide_strict_right_mono) simp_all
  then have d16: "d < 1 / 16" by simp
  have ar2: "\<bar>real a * r\<bar> \<le> 2 * x" using ar dx x0 by linarith
  from contract have "\<bar>float_mul lib (int a) r - real_of_int (int a) * r\<bar>
      \<le> \<bar>real_of_int (int a) * r\<bar> / 2 ^ 53"
    unfolding runtime_contract_def by blast
  then have "\<bar>p - real a * r\<bar> \<le> \<bar>real a * r\<bar> / 2 ^ 53" by (simp add: p_def)
  also have "\<dots> \<le> (2 * x) / 2 ^ 53" using ar2 by (intro divide_right_mono) simp_all
  also have "\<dots> = 2 * d" by (simp add: d_def)
  finally have pa: "\<bar>p - real a * r\<bar> \<le> 2 * d" .
  have "\<bar>p - x\<bar> < 1 / 4" using pa ar d16 d0 by linarith
  then show ?thesis by (simp add: p_def r_def x_def q_def)
qed

lemma scaled_side_bounds:
  assumes contract: "runtime_contract lib"
    and M: "0 < M" and a: "a \<le> M" and m0: "0 \<le> m" and m49: "m < 2 ^ 49"
  shows "py_int (float_mul lib (int a) (true_div lib m (int M))) \<le> m
       \<and> \<bar>real_of_int (py_int (float_mul lib (int a) (true_div lib m (int M))))
            - real a * real_of_int m / real M\<bar> < 5 / 4"
proof -
  define x where "x = real a * real_of_int m / real M"
  define p where "p = float_mul lib (int a) (true_div lib m (int M))"
  have px: "\<bar>p - x\<bar> < 1 / 4"
    unfolding p_def x_def using assms by (rule scaled_side_error)
  have x0: "0 \<le> x" using m0 M by (simp add: x_def)
  have "real a * real_of_int m \<le> real M * real_of_int m"
    using a m0 by (intro mult_right_mono) simp_all
  then have xm: "x \<le> real_of_int m" using M by (simp add: x_def field_simps)
  note b = py_int_bounds [of p]
  have up: "real_of_int (py_int p) \<le> x + 1 / 4" using b px x0 by linarith
  then have "real_of_int (py_int p) < real_of_int m + 1" using xm by linarith
  then have "real_of_int (py_int p) < real_of_int (m + 1)" by simp
  then have "py_int p < m + 1" by (simp only: of_int_less_iff)
  then have le: "py_int p \<le> m" by simp
  have "\<bar>real_of_int (py_int p) - x\<bar> < 5 / 4" using b px up by linarith
  with le show ?thesis by (simp add: p_def x_def)
qed

text \<open>What a successful run of the \<open>try\<close> block returns, given the opened image.\<close>

lemma try_decode_size:
  assumes contract: "runtime_contract lib"
    and b64: "b64decode lib payload = Inr data"
    and opened: "image_open lib data = Inr opened"
    and ok: "try_decode lib m payload = Inr img"
  shows "if m < int (max (width opened) (height opened))
         then 0 < max (width opened) (height opened)
            \<and> int (width img) =
                py_int (float_mul lib (int (width opened))
                  (true_div lib m (int (max (width opened) (height opened)))))
            \<and> int (height img) =
                py_int (float_mul lib (int (height opened))
                  (true_div lib m (int (max (width opened) (height opened)))))
         else width img = width opened \<and> height img = height opened"
proof -
  obtain c where c: "(if mode opened \<noteq> ''RGB'' then convert lib opened ''RGB'' else Inr opened) = Inr c"
    using ok b64 opened by (auto simp: try_decode_def split: sum.splits)
  have size_c: "width c = width opened \<and> height c = height opened"
    using c contract by (auto simp: runtime_contract_def split: if_splits)
  let ?M = "max (width opened) (height opened)"
  let ?new_size = "(py_int (float_mul lib (int (width opened)) (true_div lib m (int ?M))),
                    py_int (float_mul lib (int (height opened)) (true_div lib m (int ?M))))"
  have "try_decode lib m payload =
      (if m < int (max (width c) (height c))
       then (if max (width c) (height c) = 0
             then Inl (ZeroDivisionError ''division by zero'')
             else
               let ratio = true_div lib m (int (max (width c) (height c)));
                   new_size = (py_int (float_mul lib (int (width c)) ratio),
                               py_int (float_mul lib (int (height c)) ratio))
               in resize lib c new_size)
       else Inr c)"
    by (simp only: try_decode_def b64 opened c sum.case)
  then have td: "try_decode lib m payload =
      (if m < int ?M
       then (if ?M = 0 then Inl (ZeroDivisionError ''division by zero'')
             else resize lib c ?new_size)
       else Inr c)"
    by (simp only: size_c Let_def)
  show ?thesis
  proof (cases "m < int ?M")
    case False
    with ok td have "img = c" by simp
    with False size_c show ?thesis by simp
  next
    case True
    have pos: "0 < ?M"
    proof (rule ccontr)
      assume "\<not> 0 < ?M"
      then have z: "?M = 0" by simp
      have "try_decode lib m payload = Inl (ZeroDivisionError ''division by zero'')"
        unfolding td using True z by simp
      with ok show False by simp
    qed
    then have ne: "?M \<noteq> 0" by linarith
    have "try_decode lib m payload = resize lib c ?new_size"
      by (simp only: td True ne if_True if_False)
    with ok have "resize lib c ?new_size = Inr img" by simp
    with contract have "int (width img) = fst ?new_size \<and> int (height img) = snd ?new_size"
      unfolding runtime_contract_def by blast
    with True pos show ?thesis by simp
  qed
qed

text \<open>
  C8. \<open>convert\<close> keeps the size, \<open>resize\<close> returns the requested size, the two float
  operations have the relative error of double arithmetic, and the configured maximum
  \<open>m\<close> is between 0 and \<open>2 ^ 49\<close>. Then for every successfully decoded image the longer
  side is at most \<open>m\<close>. When the longer side \<open>M\<close> of the parsed image exceeds \<open>m\<close>, both
  sides are scaled by the same factor \<open>m / M\<close> and truncated to whole pixels: each side
  of the result is within 5/4 of a pixel of the exactly scaled side. Otherwise the image
  keeps its size.
\<close>

theorem decoded_size_bounded:
  assumes "runtime_contract lib"
    and "0 \<le> m" and "m < 2 ^ 49"
    and "strip_data_url s = Inr payload"
    and "b64decode lib payload = Inr data"
    and "image_open lib data = Inr opened"
    and "decode_base64_image lib m s = Inr img"
  shows "int (max (width img) (height img)) \<le> m
     \<and> (if m < int (max (width opened) (height opened))
        then \<bar>real (width img) -
                real (width opened) * real_of_int m / real (max (width opened) (height opened))\<bar>
               < 5 / 4
           \<and> \<bar>real (height img) -
                real (height opened) * real_of_int m / real (max (width opened) (height opened))\<bar>
               < 5 / 4
        else width img = width opened \<and> height img = height opened)"
proof -
  let ?w = "width opened" and ?h = "height opened"
  let ?M = "max ?w ?h"
  have ok: "try_decode lib m payload = Inr img"
    using assms(4,7) by (simp add: decode_base64_image_def split: sum.splits)
  note sz = try_decode_size [OF assms(1,5,6) ok]
  show ?thesis
  proof (cases "m < int ?M")
    case False
    with sz show ?thesis by simp
  next
    case True
    with sz have pos: "0 < ?M"
      and W: "int (width img) = py_int (float_mul lib (int ?w) (true_div lib m (int ?M)))"
      and H: "int (height img) = py_int (float_mul lib (int ?h) (true_div lib m (int ?M)))"
      by simp_all
    have bw: "py_int (float_mul lib (int ?w) (true_div lib m (int ?M))) \<le> m
        \<and> \<bar>real_of_int (py_int (float_mul lib (int ?w) (true_div lib m (int ?M))))
            - real ?w * real_of_int m / real ?M\<bar> < 5 / 4"
      by (rule scaled_side_bounds [OF assms(1) pos _ assms(2,3)]) simp
    have bh: "py_int (float_mul lib (int ?h) (true_div lib m (int ?M))) \<le> m
        \<and> \<bar>real_of_int (py_int (float_mul lib (int ?h) (true_div lib m (int ?M))))
            - real ?h * real_of_int m / real ?M\<bar> < 5 / 4"
      by (rule scaled_side_bounds [OF assms(1) pos _ assms(2,3)]) simp
    have rw: "real (width img) = real_of_int (int (width img))" by simp
    have rh: "real (height img) = real_of_int (int (height img))" by simp
    have "int (width img) \<le> m" and "int (height img) \<le> m"
      using bw bh W H by simp_all
    then have bound: "int (max (width img) (height img)) \<le> m" by simp
    have cw: "\<bar>real (width img) - real ?w * real_of_int m / real ?M\<bar> < 5 / 4"
      using bw unfolding rw W by simp
    have ch: "\<bar>real (height img) - real ?h * real_of_int m / real ?M\<bar> < 5 / 4"
      using bh unfolding rh H by simp
    from True bound cw ch show ?thesis by simp
  qed
qed

text \<open>The small instance meets the contract, and rounds as double arithmetic does.\<close>

lemma round_half_even_error: "\<bar>real_of_int (round_half_even r) - r\<bar> \<le> 1 / 2"
  unfolding round_half_even_def Let_def by (auto; linarith)

lemma to_double_error: "\<bar>to_double x - x\<bar> \<le> \<bar>x\<bar> / 2 ^ 53"
proof -
  define s where "s = normalise 128 \<bar>x\<bar> 1"
  define y where "y = \<bar>x\<bar> * s"
  have unfold: "to_double x =
      (if 2 ^ 52 \<le> y \<and> y < 2 ^ 53
       then sgn x * real_of_int (round_half_even y) / s else x)"
    by (simp only: to_double_def Let_def s_def y_def)
  show ?thesis
  proof (cases "2 ^ 52 \<le> y \<and> y < 2 ^ 53")
    case False
    with unfold have "to_double x = x" by (simp only: if_False simp_thms)
    then show ?thesis by simp
  next
    case True
    then have ypos: "0 < y" by simp
    have xpos: "0 < \<bar>x\<bar>" using ypos unfolding y_def by (cases "x = 0") simp_all
    have spos: "0 < s"
      using ypos xpos unfolding y_def by (simp add: zero_less_mult_iff)
    from True unfold have td: "to_double x = sgn x * real_of_int (round_half_even y) / s"
      by (simp only: if_True simp_thms)
    have x: "x = sgn x * y / s" using spos by (simp add: y_def sgn_real_def)
    have "to_double x - x = sgn x * (real_of_int (round_half_even y) - y) / s"
      by (subst x, subst td) (simp add: algebra_simps diff_divide_distrib)
    then have "\<bar>to_double x - x\<bar> = \<bar>real_of_int (round_half_even y) - y\<bar> / s"
      using spos xpos by (simp add: abs_mult sgn_real_def)
    also have "\<dots> \<le> (1 / 2) / s"
      by (rule divide_right_mono [OF round_half_even_error]) (use spos in simp)
    also have "\<dots> \<le> (y / 2 ^ 53) / s"
    proof -
      have "(1::real) / 2 \<le> y / 2 ^ 53" using True by simp
      then show ?thesis by (rule divide_right_mono) (use spos in simp)
    qed
    also have "\<dots> = \<bar>x\<bar> / 2 ^ 53" using spos by (simp add: y_def)
    finally show ?thesis .
  qed
qed

lemma stub_runtime_contract: "runtime_contract stub_runtime"
proof -
  have "\<And>a b. \<bar>stub_true_div a b - real_of_int a / real_of_int b\<bar>
      \<le> \<bar>real_of_int a / real_of_int b\<bar> / 2 ^ 53"
    unfolding stub_true_div_def by (rule to_double_error)
  moreover have "\<And>a r. \<bar>stub_float_mul a r - real_of_int a * r\<bar>
      \<le> \<bar>real_of_int a * r\<bar> / 2 ^ 53"
    unfolding stub_float_mul_def by (rule to_double_error)
  moreover have "\<And>img m img'. stub_convert img m = Inr img' \<Longrightarrow>
      width img' = width img \<and> height img' = height img"
    by (auto simp: stub_convert_def)
  moreover have "\<And>img new_size img'. stub_resize img new_size = Inr img' \<Longrightarrow>
      int (width img') = fst new_size \<and> int (height img') = snd new_size"
    by (auto simp: stub_resize_def split: if_splits)
  ultimately show ?thesis
    unfolding runtime_contract_def stub_runtime_def by simp
qed

lemma ratio_1952: "stub_true_div 1280 1952 = 5906360167043273 / 9007199254740992"
  by (simp add: stub_true_div_def to_double_def round_half_even_def Let_def eval_nat_numeral)

lemma width_1952: "stub_float_mul 1952 (5906360167043273 / 9007199254740992) = 1280"
  by (simp add: stub_float_mul_def to_double_def round_half_even_def Let_def eval_nat_numeral)

lemma height_1464:
  "stub_float_mul 1464 (5906360167043273 / 9007199254740992) =
     8444249301319679 / 8796093022208"
  by (simp add: stub_float_mul_def to_double_def round_half_even_def Let_def eval_nat_numeral)

lemma decode_BBBB:
  "decode_base64_image stub_runtime 1280 ''BBBB'' =
     Inr \<lparr>mode = ''RGB'', width = 1280, height = 959, pixels = []\<rparr>"
  by (simp add: decode_base64_image_def strip_data_url_def try_decode_def stub_runtime_def
      stub_b64decode_def stub_open_def stub_files_def stub_resize_def Let_def
      ratio_1952 width_1952 height_1464 py_int_def)

lemma ratio_2139: "stub_true_div 1280 2139 = 5390002359078293 / 9007199254740992"
  by (simp add: stub_true_div_def to_double_def round_half_even_def Let_def eval_nat_numeral)

lemma width_2139:
  "stub_float_mul 2139 (5390002359078293 / 9007199254740992) =
     5629499534213119 / 4398046511104"
  by (simp add: stub_float_mul_def to_double_def round_half_even_def Let_def eval_nat_numeral)

lemma height_100:
  "stub_float_mul 100 (5390002359078293 / 9007199254740992) =
     8421878686059833 / 140737488355328"
  by (simp add: stub_float_mul_def to_double_def round_half_even_def Let_def eval_nat_numeral)

lemma decode_DDDD:
  "decode_base64_image stub_runtime 1280 ''DDDD'' =
     Inr \<lparr>mode = ''RGB'', width = 1279, height = 59, pixels = []\<rparr>"
  by (simp add: decode_base64_image_def strip_data_url_def try_decode_def stub_runtime_def
      stub_b64decode_def stub_open_def stub_files_def stub_resize_def Let_def
      ratio_2139 width_2139 height_100 py_int_def)

theorem decoded_size_bounded_witness:
  "runtime_contract stub_runtime
   \<and> decode_base64_image stub_runtime 1280 ''BBBB'' =
      Inr \<lparr>mode = ''RGB'', width = 1280, height = 959, pixels = []\<rparr>
   \<and> int (max (1280 :: nat) 959) \<le> 1280
   \<and> \<bar>real 1280 - real 1952 * real_of_int 1280 / real (max (1952 :: nat) 1464)\<bar> < 5 / 4
   \<and> \<bar>real 959 - real 1464 * real_of_int 1280 / real (max (1952 :: nat) 1464)\<bar> < 5 / 4"
proof -
  have h1: "(0 :: int) \<le> 1280" and h2: "(1280 :: int) < 2 ^ 49" by simp_all
  have h3: "strip_data_url ''BBBB'' = Inr ''BBBB''" by (simp add: strip_data_url_def)
  have h4: "b64decode stub_runtime ''BBBB'' = Inr ''BBBB''"
    by (simp add: stub_runtime_def stub_b64decode_def)
  have h5: "image_open stub_runtime ''BBBB'' =
      Inr \<lparr>mode = ''RGB'', width = 1952, height = 1464, pixels = []\<rparr>"
    by (simp add: stub_runtime_def stub_open_def stub_files_def)
  show ?thesis
    using decoded_size_bounded [OF stub_runtime_contract h1 h2 h3 h4 h5 decode_BBBB]
      stub_runtime_contract decode_BBBB
    by simp
qed

end
